theory Spec2Isabelle
  imports Main "HOL-Library.Sublist" "HOL-Library.AList"
begin

section \<open>The frontmatter script of the Vue documentation site\<close>

text \<open>
  The only program of the repository is a bash script of 36 lines. It changes into
  \<^verbatim>\<open>src/content/docs/vue\<close>, lists the regular files named \<^verbatim>\<open>*.md\<close> or \<^verbatim>\<open>*.mdx\<close>
  with \<^verbatim>\<open>find\<close>, and for each of them derives a title from the file name with three
  \<^verbatim>\<open>sed\<close> calls, asks \<^verbatim>\<open>grep -q "^---"\<close> whether the file has a line that begins with
  three hyphens and, when it has none, writes a header block to the scratch file
  \<^verbatim>\<open>temp_file\<close>, appends the file to it and moves the scratch file over the file.

  The script has no \<^verbatim>\<open>set -e\<close> and tests no exit status apart from the one of
  \<^verbatim>\<open>grep\<close>: a command that fails leaves the file system as it is and the script goes
  on with the next command. The model follows that: every command is a total function
  on the file system, and a failing command returns its argument.

  The loop is modelled twice. \<open>run\<close> is the loop on the paths of the listing
  themselves. \<open>script\<close> has the pipe in between: the text that \<^verbatim>\<open>find\<close> prints and
  the lines that \<^verbatim>\<open>read\<close> makes of it, which are other paths when a name has a
  backslash or a newline in it. The two agree on file systems whose names have neither
  (\<open>script_plain\<close>).

  What the model leaves out. Permissions, symbolic links and full disks are not
  represented: every regular file can be read and replaced. The listing is taken before
  the loop starts. Messages on standard output and standard error are not part of the
  state.
\<close>

subsection \<open>Characters and the title pipeline\<close>

text \<open>The bracket expression \<^verbatim>\<open>[a-z]\<close> and the case conversion of \<^verbatim>\<open>sed\<close>, on ASCII.\<close>

definition lower_letters :: string where
  "lower_letters = ''abcdefghijklmnopqrstuvwxyz''"

definition upper_letters :: string where
  "upper_letters = ''ABCDEFGHIJKLMNOPQRSTUVWXYZ''"

definition is_lower :: "char \<Rightarrow> bool" where
  "is_lower c = (c \<in> set lower_letters)"

definition to_upper :: "char \<Rightarrow> char" where
  "to_upper c = (case map_of (zip lower_letters upper_letters) c of Some u \<Rightarrow> u | None \<Rightarrow> c)"

text \<open>
  Line 9, second stage: \<^verbatim>\<open>sed 's/\.[^.]*$//'\<close> deletes the last dot of the name and
  everything after it; a name without a dot is left alone.
\<close>

definition strip_ext :: "string \<Rightarrow> string" where
  "strip_ext s =
     (if CHR ''.'' \<in> set s
      then rev (tl (dropWhile (\<lambda>c. c \<noteq> CHR ''.'') (rev s)))
      else s)"

text \<open>
  Line 12, first stage: \<^verbatim>\<open>echo "$filename"\<close>. The builtin takes a first argument that
  is a hyphen followed by one or more of the letters n, e, E as options, and then prints
  no text at all; any other argument is printed as one line.
\<close>

definition echo_option :: "string \<Rightarrow> bool" where
  "echo_option s =
     (case s of
        c # x # xs \<Rightarrow> c = CHR ''-'' \<and> list_all (\<lambda>y. y \<in> set ''neE'') (x # xs)
      | _ \<Rightarrow> False)"

definition echo_line :: "string \<Rightarrow> string" where
  "echo_line s = (if echo_option s then [] else s)"

text \<open>
  Line 12, second stage: \<^verbatim>\<open>sed -r 's/(^|-)([a-z])/\U\2/g'\<close>. A match is a lower-case
  letter at the start of the line, or a hyphen followed by a lower-case letter; the
  replacement is the upper-case letter alone, so the hyphen of a match is dropped.
  Matches are found from left to right and do not overlap. \<open>cap_rest\<close> scans a line
  from a position that is not its start, \<open>sed_capitalize\<close> from the start.
\<close>

fun cap_rest :: "string \<Rightarrow> string" where
  "cap_rest (a # b # cs) =
     (if a = CHR ''-'' \<and> is_lower b then to_upper b # cap_rest cs
      else a # cap_rest (b # cs))"
| "cap_rest cs = cs"

definition sed_capitalize :: "string \<Rightarrow> string" where
  "sed_capitalize s =
     (case s of
        [] \<Rightarrow> []
      | c # cs \<Rightarrow> if is_lower c then to_upper c # cap_rest cs else cap_rest s)"

text \<open>Line 12, third stage: \<^verbatim>\<open>sed 's/-/ /g'\<close> turns every remaining hyphen into a space.\<close>

definition sed_spaces :: "string \<Rightarrow> string" where
  "sed_spaces s = map (\<lambda>c. if c = CHR ''-'' then CHR '' '' else c) s"

text \<open>Lines 9 and 12 together, from the base name of the file to \<^verbatim>\<open>$title\<close>.\<close>

definition derive_title :: "string \<Rightarrow> string" where
  "derive_title name = sed_spaces (sed_capitalize (echo_line (strip_ext name)))"

subsection \<open>The header block and the header test\<close>

definition NL :: char where
  "NL = CHR 0x0A"

definition NUL :: char where
  "NUL = CHR 0x00"

text \<open>
  Lines 17 to 25: the text that \<^verbatim>\<open>echo\<close> writes to the scratch file. The quoted string
  ends with a newline and \<^verbatim>\<open>echo\<close> adds one more.
\<close>

definition frontmatter :: "string \<Rightarrow> string" where
  "frontmatter title =
     ''---'' @ [NL] @
     ''title: '' @ title @ [NL] @
     ''description: Learn about '' @ title @ '' in Vue.js'' @ [NL] @
     ''---'' @ [NL] @
     [NL] @
     ''# '' @ title @ [NL] @
     [NL] @
     ''Content for '' @ title @ '' goes here.'' @ [NL] @
     [NL]"

text \<open>
  The lines of a text: a newline ends a line, and text after the last newline is a
  line too.
\<close>

fun split_lines :: "string \<Rightarrow> string list" where
  "split_lines [] = []"
| "split_lines (c # cs) =
     (if c = NL then [] # split_lines cs
      else (case split_lines cs of [] \<Rightarrow> [[c]] | l # ls \<Rightarrow> (c # l) # ls))"

text \<open>
  \<^verbatim>\<open>grep\<close> takes a file with NUL bytes for a binary file and then lets every NUL byte
  end a line as well, so the pieces it matches against are the lines cut further at
  the NUL bytes.
\<close>

fun split_nul :: "string \<Rightarrow> string list" where
  "split_nul [] = []"
| "split_nul (c # cs) =
     (if c = NUL then [] # split_nul cs
      else (case split_nul cs of [] \<Rightarrow> [[c]] | l # ls \<Rightarrow> (c # l) # ls))"

text \<open>
  Line 15: \<^verbatim>\<open>grep -q "^---"\<close> succeeds when some line, as \<^verbatim>\<open>grep\<close> cuts the lines,
  begins with three hyphens.
\<close>

definition grep_dashes :: "string \<Rightarrow> bool" where
  "grep_dashes content =
     list_ex (\<lambda>l. list_ex (\<lambda>piece. take 3 piece = ''---'') (split_nul l)) (split_lines content)"

text \<open>
  The header test in the words of the specification, for comparison: the content
  starts with a line that consists of three hyphens and nothing else.
\<close>

definition spec_has_header :: "string \<Rightarrow> bool" where
  "spec_has_header content =
     (case split_lines content of [] \<Rightarrow> False | l # ls \<Rightarrow> l = ''---'')"

subsection \<open>The file system\<close>

text \<open>
  A path is the list of its components below the directory in which the script is
  started; that directory itself is the empty path. The file system is an association
  list from paths to nodes, read through \<open>map_of\<close>; the order of the list stands for
  the order in which \<^verbatim>\<open>find\<close> meets the entries.
\<close>

type_synonym path = "string list"

datatype node = File string | Dir

type_synonym fs = "(path \<times> node) list"

definition vue_dir :: path where
  "vue_dir = [''src'', ''content'', ''docs'', ''vue'']"

definition temp_file :: string where
  "temp_file = ''temp_file''"

definition basename :: "path \<Rightarrow> string" where
  "basename p = (if p = [] then ''.'' else last p)"

text \<open>Line 4: \<^verbatim>\<open>cd\<close> moves to the directory when there is one, and fails otherwise.\<close>

definition cd :: "fs \<Rightarrow> path \<Rightarrow> path \<Rightarrow> path" where
  "cd fs cwd d = (if map_of fs (cwd @ d) = Some Dir then cwd @ d else cwd)"

text \<open>Line 7: the regular files below the working directory named *.md or *.mdx.\<close>

definition md_name :: "string \<Rightarrow> bool" where
  "md_name n = (suffix ''.md'' n \<or> suffix ''.mdx'' n)"

definition is_file :: "fs \<Rightarrow> path \<Rightarrow> bool" where
  "is_file fs p = (case map_of fs p of Some (File c) \<Rightarrow> True | _ \<Rightarrow> False)"

definition find_files :: "fs \<Rightarrow> path \<Rightarrow> path list" where
  "find_files fs cwd =
     filter (\<lambda>p. strict_prefix cwd p \<and> is_file fs p \<and> md_name (basename p)) (map fst fs)"

text \<open>
  Line 15 on a path: \<^verbatim>\<open>grep\<close> fails on a path that is no regular file, and the
  negated test then holds.
\<close>

definition grep_q :: "fs \<Rightarrow> path \<Rightarrow> bool" where
  "grep_q fs file = (case map_of fs file of Some (File c) \<Rightarrow> grep_dashes c | _ \<Rightarrow> False)"

text \<open>
  Lines 17 to 25: the redirection \<^verbatim>\<open>> temp_file\<close> creates or truncates a regular file
  and fails on a directory.
\<close>

definition redirect_write :: "fs \<Rightarrow> path \<Rightarrow> string \<Rightarrow> fs" where
  "redirect_write fs p s =
     (if map_of fs p = Some Dir then fs else AList.update p (File s) fs)"

text \<open>
  Line 28: \<^verbatim>\<open>cat "$file" >> temp_file\<close>. The redirection opens the target first, creating
  it when it is missing and failing on a directory; \<^verbatim>\<open>cat\<close> then adds the bytes of
  the source, or nothing when the source is no regular file or is the target itself
  (which \<^verbatim>\<open>cat\<close> refuses).
\<close>

definition cat_append :: "fs \<Rightarrow> path \<Rightarrow> path \<Rightarrow> fs" where
  "cat_append fs src dst =
     (case map_of fs dst of
        Some Dir \<Rightarrow> fs
      | other \<Rightarrow>
          AList.update dst
            (File ((case other of Some (File old) \<Rightarrow> old | _ \<Rightarrow> []) @
                   (if src = dst then []
                    else case map_of fs src of Some (File s) \<Rightarrow> s | _ \<Rightarrow> []))) fs)"

text \<open>
  Line 31: \<^verbatim>\<open>mv temp_file "$file"\<close>. A regular file replaces a regular file, takes a
  free name in a directory that exists, and goes into a directory under its own name.
  A directory cannot replace a regular file; it takes a free name in a directory that
  exists, or goes into a directory where its name is free or belongs to an empty
  directory, and never into itself. The starting directory, the empty path, exists.
\<close>

definition rename_tree :: "path \<Rightarrow> path \<Rightarrow> fs \<Rightarrow> fs" where
  "rename_tree src dst fs =
     map (\<lambda>(p, n). if prefix src p then (dst @ drop (length src) p, n) else (p, n)) fs"

definition parent_exists :: "fs \<Rightarrow> path \<Rightarrow> bool" where
  "parent_exists fs p = (butlast p = [] \<or> map_of fs (butlast p) = Some Dir)"

definition empty_dir :: "fs \<Rightarrow> path \<Rightarrow> bool" where
  "empty_dir fs p = (map_of fs p = Some Dir \<and> list_all (\<lambda>q. \<not> strict_prefix p q) (map fst fs))"

definition mv :: "fs \<Rightarrow> path \<Rightarrow> path \<Rightarrow> fs" where
  "mv fs src dst =
     (if src = dst then fs
      else case map_of fs src of
        None \<Rightarrow> fs
      | Some (File s) \<Rightarrow>
          (case map_of fs dst of
             Some Dir \<Rightarrow>
               (let t = dst @ [basename src]
                in if map_of fs t = Some Dir then fs
                   else AList.delete src (AList.update t (File s) fs))
           | Some (File old) \<Rightarrow> AList.delete src (AList.update dst (File s) fs)
           | None \<Rightarrow>
               if parent_exists fs dst then AList.delete src (AList.update dst (File s) fs)
               else fs)
      | Some Dir \<Rightarrow>
          (case map_of fs dst of
             Some (File old) \<Rightarrow> fs
           | None \<Rightarrow>
               if prefix src dst then fs
               else if parent_exists fs dst then rename_tree src dst fs
               else fs
           | Some Dir \<Rightarrow>
               (let t = dst @ [basename src]
                in if prefix src dst then fs
                   else if map_of fs t = None then rename_tree src t fs
                   else if empty_dir fs t then rename_tree src t (AList.delete t fs)
                   else fs)))"

subsection \<open>The loop body and the script\<close>

text \<open>Lines 8 to 34, for one path handed to the loop; \<open>cwd\<close> is the working directory.\<close>

definition process_file :: "path \<Rightarrow> fs \<Rightarrow> path \<Rightarrow> fs" where
  "process_file cwd fs file =
     (let title = derive_title (basename file)
      in if grep_q fs file then fs
         else
           let tmp = cwd @ [temp_file];
               fs1 = redirect_write fs tmp (frontmatter title);
               fs2 = cat_append fs1 file tmp;
               fs3 = mv fs2 tmp file
           in fs3)"

text \<open>
  The working directory of the loop: the content directory when \<^verbatim>\<open>cd\<close> succeeds, the
  starting directory when it fails, since the script does not stop there.
\<close>

definition workdir :: "fs \<Rightarrow> path" where
  "workdir fs = cd fs [] vue_dir"

text \<open>
  Lines 7 to 35 when each path reaches the loop as \<^verbatim>\<open>find\<close> printed it: the loop body
  on every path of the listing, in turn.
\<close>

definition run :: "fs \<Rightarrow> fs" where
  "run fs = foldl (process_file (workdir fs)) fs (find_files fs (workdir fs))"

subsection \<open>The pipe from find to the loop\<close>

text \<open>
  Line 7, left of the pipe: \<^verbatim>\<open>find .\<close> prints each path as a dot, then a slash and a
  name for every step below the working directory, then a newline.
\<close>

definition render :: "path \<Rightarrow> string" where
  "render rel = ''.'' @ concat (map (\<lambda>name. CHR ''/'' # name) rel)"

definition find_output :: "fs \<Rightarrow> path \<Rightarrow> string" where
  "find_output fs cwd =
     concat (map (\<lambda>p. render (drop (length cwd) p) @ [NL]) (find_files fs cwd))"

text \<open>
  Line 7, right of the pipe: \<^verbatim>\<open>while read file\<close>. Without the option -r a backslash
  is dropped and makes the next character an ordinary one; a backslash before a
  newline joins two lines. An ordinary newline ends the line. Spaces and tabs that are
  not escaped are cut from both ends of the line. Text after the last newline makes
  \<^verbatim>\<open>read\<close> fail, so the loop does not see it. A character is kept with a flag that
  says whether a backslash stood before it.
\<close>

definition BS :: char where
  "BS = CHR 0x5C"

definition blank :: "char \<times> bool \<Rightarrow> bool" where
  "blank x = (\<not> snd x \<and> (fst x = CHR '' '' \<or> fst x = CHR 0x09))"

definition trim_ifs :: "(char \<times> bool) list \<Rightarrow> string" where
  "trim_ifs field = map fst (rev (dropWhile blank (rev (dropWhile blank field))))"

fun read_loop :: "(char \<times> bool) list \<Rightarrow> string \<Rightarrow> string list" where
  "read_loop acc [] = []"
| "read_loop acc (c # cs) =
     (if c = NL then trim_ifs (rev acc) # read_loop [] cs
      else if c = BS then
        (case cs of
           [] \<Rightarrow> []
         | d # ds \<Rightarrow> if d = NL then read_loop acc ds else read_loop ((d, True) # acc) ds)
      else read_loop ((c, False) # acc) cs)"

definition read_lines :: "string \<Rightarrow> string list" where
  "read_lines text = read_loop [] text"

text \<open>
  The commands of the loop body take \<^verbatim>\<open>"$file"\<close> as a path below the working
  directory. The model follows a line that is an optional leading dot and then one or
  more names separated by single slashes, none of them empty, a dot or two dots, and
  that does not begin with a hyphen (which the commands would take for an option). Any
  other line is outside the model: \<open>resolve\<close> gives \<open>None\<close> for it.
\<close>

fun split_slash :: "string \<Rightarrow> string list" where
  "split_slash [] = [[]]"
| "split_slash (c # cs) =
     (if c = CHR ''/'' then [] # split_slash cs
      else (case split_slash cs of [] \<Rightarrow> [[c]] | l # ls \<Rightarrow> (c # l) # ls))"

definition step_name :: "string \<Rightarrow> bool" where
  "step_name name = (name \<noteq> [] \<and> name \<noteq> ''.'' \<and> name \<noteq> ''..'')"

definition resolve :: "string \<Rightarrow> path option" where
  "resolve line =
     (let names = split_slash line;
          rel = (case names of n # ns \<Rightarrow> if n = ''.'' then ns else names | [] \<Rightarrow> [])
      in if rel \<noteq> [] \<and> list_all step_name rel \<and> take 1 line \<noteq> ''-'' then Some rel else None)"

text \<open>
  Lines 7 to 35: the loop over the lines that \<^verbatim>\<open>read\<close> delivers. The result is
  \<open>None\<close> when a line is outside the model.
\<close>

fun while_read :: "path \<Rightarrow> fs \<Rightarrow> string list \<Rightarrow> fs option" where
  "while_read cwd fs [] = Some fs"
| "while_read cwd fs (line # lines) =
     (case resolve line of
        None \<Rightarrow> None
      | Some rel \<Rightarrow> while_read cwd (process_file cwd fs (cwd @ rel)) lines)"

text \<open>The whole script, lines 4 to 35.\<close>

definition script :: "fs \<Rightarrow> fs option" where
  "script fs = while_read (workdir fs) fs (read_lines (find_output fs (workdir fs)))"

text \<open>Two runs of the script, one after the other.\<close>

definition script_twice :: "fs \<Rightarrow> fs option" where
  "script_twice fs = (case script fs of None \<Rightarrow> None | Some fs1 \<Rightarrow> script fs1)"

text \<open>
  File systems in which every name is an ordinary one: not empty, not a dot or two
  dots, and free of slashes, backslashes and newlines. The first four conditions hold
  of every file name; the last two are the ones that \<^verbatim>\<open>read\<close> needs in order to hand
  the loop the paths that \<^verbatim>\<open>find\<close> printed.
\<close>

definition plain_name :: "string \<Rightarrow> bool" where
  "plain_name name =
     (step_name name \<and>
      list_all (\<lambda>c. c \<noteq> CHR ''/'' \<and> c \<noteq> BS \<and> c \<noteq> NL) name)"

definition plain_names :: "fs \<Rightarrow> bool" where
  "plain_names fs = list_all (\<lambda>p. list_all plain_name p) (map fst fs)"

subsection \<open>Auxiliary notions\<close>

text \<open>
  The node at a path in the result of the script, \<open>None\<close> also when the script left
  the model.
\<close>

definition node_after :: "fs option \<Rightarrow> path \<Rightarrow> node option" where
  "node_after result p = (case result of None \<Rightarrow> None | Some fs \<Rightarrow> map_of fs p)"


text \<open>
  The invariant of the loop: every path still to be processed is a regular file and is
  not the scratch file.
\<close>

definition listed :: "path \<Rightarrow> fs \<Rightarrow> path list \<Rightarrow> bool" where
  "listed cwd fs ps = list_all (\<lambda>p. is_file fs p \<and> p \<noteq> cwd @ [temp_file]) ps"

subsection \<open>Example file systems\<close>

text \<open>
  Small sites on which the theorems below are instantiated. \<open>ex_scenario\<close> is the
  scenario of the specification: \<^verbatim>\<open>a.mdx\<close> without a header and \<^verbatim>\<open>b.md\<close> with one.
  \<open>ex_rule\<close> has a page with a horizontal rule in its body and a page whose first line
  has four hyphens; \<open>ex_scratch\<close> has a file named \<^verbatim>\<open>temp_file\<close> in the content
  directory and \<open>ex_scratch_dir\<close> a directory of that name; \<open>ex_no_dir\<close> has no
  content directory at all. \<open>ex_backslash\<close> and \<open>ex_backslash_empty\<close> have a page
  with backslashes in its name, \<open>ex_newline\<close> a page with a newline in its name.
\<close>

definition site_dirs :: fs where
  "site_dirs =
     [([''src''], Dir), ([''src'', ''content''], Dir), ([''src'', ''content'', ''docs''], Dir),
      ([''src'', ''content'', ''docs'', ''vue''], Dir)]"

definition page :: "string \<Rightarrow> path" where
  "page n = [''src'', ''content'', ''docs'', ''vue'', n]"

definition header_x :: string where
  "header_x = ''---'' @ [NL] @ ''title: X'' @ [NL] @ ''---'' @ [NL] @ ''body''"

definition ex_scenario :: fs where
  "ex_scenario = site_dirs @ [(page ''a.mdx'', File ''hello''), (page ''b.md'', File header_x)]"

definition rule_text :: string where
  "rule_text = ''intro'' @ [NL] @ ''---'' @ [NL] @ ''more'' @ [NL]"

definition ex_rule :: fs where
  "ex_rule = site_dirs @
     [(page ''guide.md'', File rule_text), (page ''notes.md'', File ''---- draft'')]"

definition ex_scratch :: fs where
  "ex_scratch = site_dirs @ [(page ''temp_file'', File ''notes''), (page ''a.md'', File ''hello'')]"

definition ex_no_dir :: fs where
  "ex_no_dir = [([''README.md''], File ''hello'')]"

definition ex_empty :: fs where
  "ex_empty = site_dirs @ [(page ''empty.md'', File [])]"

definition ex_scratch_dir :: fs where
  "ex_scratch_dir = site_dirs @ [(page ''temp_file'', Dir), (page ''empty.md'', File [])]"

definition ex_backslash :: fs where
  "ex_backslash = site_dirs @ [(page (''a'' @ [BS, BS] @ ''b.md''), File ''x'')]"

definition ex_backslash_empty :: fs where
  "ex_backslash_empty = site_dirs @ [(page (''a'' @ [BS] @ ''b.md''), File [])]"

definition ex_newline :: fs where
  "ex_newline = site_dirs @
     [(page ''foo'', File ''text''), (page (''foo'' @ [NL] @ ''bar.md''), File ''x'')]"

section \<open>Properties of the title pipeline\<close>

lemmas title_defs = derive_title_def sed_spaces_def sed_capitalize_def echo_line_def
  echo_option_def strip_ext_def is_lower_def to_upper_def lower_letters_def upper_letters_def

lemma strip_ext_md: "strip_ext (stem @ ''.md'') = stem"
  by (simp add: strip_ext_def)

lemma strip_ext_mdx: "strip_ext (stem @ ''.mdx'') = stem"
  by (simp add: strip_ext_def)

lemma cap_rest_other: "a \<noteq> CHR ''-'' \<Longrightarrow> cap_rest (a # cs) = a # cap_rest cs"
  by (cases cs) simp_all

lemma not_lower_special [simp]: "\<not> is_lower (CHR ''_'')" "\<not> is_lower (CHR ''-'')"
  by (simp_all add: is_lower_def lower_letters_def)

lemma cap_rest_underscore:
  "cap_rest (xs @ CHR ''_'' # ys) = cap_rest xs @ CHR ''_'' # cap_rest ys"
  by (induction xs rule: cap_rest.induct) (simp_all add: cap_rest_other)

lemma cap_rest_hyphen:
  "is_lower c \<Longrightarrow> cap_rest (xs @ CHR ''-'' # c # ys) = cap_rest xs @ to_upper c # cap_rest ys"
  by (induction xs rule: cap_rest.induct) simp_all

lemma sed_capitalize_underscore:
  "sed_capitalize (xs @ CHR ''_'' # ys) = sed_capitalize xs @ CHR ''_'' # cap_rest ys"
  using cap_rest_underscore [of xs ys] cap_rest_underscore [of "tl xs" ys]
  by (cases xs) (simp_all add: sed_capitalize_def cap_rest_other)

lemma sed_capitalize_hyphen:
  "is_lower c \<Longrightarrow>
   sed_capitalize (xs @ CHR ''-'' # c # ys) = sed_capitalize xs @ to_upper c # cap_rest ys"
  using cap_rest_hyphen [of c "tl xs" ys] cap_rest_hyphen [of c xs ys]
  by (cases xs) (simp_all add: sed_capitalize_def)

lemma cap_rest_no_hyphen: "CHR ''-'' \<notin> set s \<Longrightarrow> cap_rest s = s"
  by (induction s rule: cap_rest.induct) auto

lemma to_upper_not_hyphen: "is_lower c \<Longrightarrow> to_upper c \<noteq> CHR ''-''"
  by (auto simp: is_lower_def to_upper_def lower_letters_def upper_letters_def)

lemma to_upper_other: "\<not> is_lower c \<Longrightarrow> to_upper c = c"
  by (simp add: is_lower_def to_upper_def lower_letters_def upper_letters_def)

lemma echo_option_chars:
  assumes "echo_option s" and "y \<in> set s"
  shows "y \<in> set ''-neE''"
proof -
  from assms(1) obtain x xs where s: "s = CHR ''-'' # x # xs"
    and rest: "list_all (\<lambda>y. y \<in> set ''neE'') (x # xs)"
    by (simp add: echo_option_def split: list.splits)
  from rest have "\<forall>y \<in> set (x # xs). y \<in> set ''neE''"
    by (simp only: list_all_iff)
  with assms(2) s show ?thesis by fastforce
qed

lemma echo_line_underscore: "CHR ''_'' \<in> set s \<Longrightarrow> echo_line s = s"
  using echo_option_chars [of s "CHR ''_''"]
  by (cases "echo_option s") (simp_all add: echo_line_def)

lemma echo_line_no_hyphen: "CHR ''-'' \<notin> set s \<Longrightarrow> echo_line s = s"
  by (auto simp: echo_line_def echo_option_def split: list.splits)

lemma sed_spaces_append: "sed_spaces (xs @ ys) = sed_spaces xs @ sed_spaces ys"
  by (simp add: sed_spaces_def)

lemma sed_spaces_Cons_other: "a \<noteq> CHR ''-'' \<Longrightarrow> sed_spaces (a # xs) = a # sed_spaces xs"
  by (simp add: sed_spaces_def)

lemma sed_spaces_no_hyphen: "CHR ''-'' \<notin> set s \<Longrightarrow> sed_spaces s = s"
  by (induction s) (auto simp: sed_spaces_def)

lemma strip_ext_page: "ext = ''.md'' \<or> ext = ''.mdx'' \<Longrightarrow> strip_ext (stem @ ext) = stem"
  by (auto simp: strip_ext_md strip_ext_mdx)

lemma derive_title_underscore:
  assumes "ext = ''.md'' \<or> ext = ''.mdx''" and "c \<noteq> CHR ''-''"
  shows "derive_title (xs @ CHR ''_'' # c # ys @ ext) =
         sed_spaces (sed_capitalize xs) @ CHR ''_'' # c # sed_spaces (cap_rest ys)"
proof -
  let ?stem = "xs @ CHR ''_'' # c # ys"
  have "derive_title (?stem @ ext) = sed_spaces (sed_capitalize (echo_line ?stem))"
    using strip_ext_page [OF assms(1), of ?stem] by (simp only: derive_title_def)
  also have "echo_line ?stem = ?stem"
    by (rule echo_line_underscore) simp
  also have "sed_capitalize ?stem = sed_capitalize xs @ CHR ''_'' # c # cap_rest ys"
    using assms(2) by (simp add: sed_capitalize_underscore cap_rest_other)
  finally show ?thesis
    using assms(2) by (simp add: sed_spaces_append sed_spaces_Cons_other)
qed

lemma to_upper_keeps_no_hyphen: "a \<noteq> CHR ''-'' \<Longrightarrow> to_upper a \<noteq> CHR ''-''"
  by (cases "is_lower a") (simp_all add: to_upper_not_hyphen to_upper_other)

lemma derive_title_no_hyphen:
  assumes "ext = ''.md'' \<or> ext = ''.mdx''" and "CHR ''-'' \<notin> set stem"
  shows "derive_title (stem @ ext) = (case stem of [] \<Rightarrow> [] | a # as \<Rightarrow> to_upper a # as)"
proof (cases stem)
  case Nil
  with assms(1) show ?thesis by (auto simp: title_defs)
next
  case (Cons a as)
  with assms(2) have a: "a \<noteq> CHR ''-''" and as: "CHR ''-'' \<notin> set as" by auto
  have "derive_title (stem @ ext) = sed_spaces (sed_capitalize (echo_line stem))"
    using strip_ext_page [OF assms(1), of stem] by (simp only: derive_title_def)
  also have "echo_line stem = stem"
    using assms(2) by (rule echo_line_no_hyphen)
  also have "sed_capitalize stem = to_upper a # as"
    using a as cap_rest_no_hyphen [of as] cap_rest_no_hyphen [of "a # as"]
    by (simp add: Cons sed_capitalize_def to_upper_other)
  also have "sed_spaces (to_upper a # as) = to_upper a # as"
    using to_upper_keeps_no_hyphen [OF a] as by (intro sed_spaces_no_hyphen) simp
  finally show ?thesis by (simp add: Cons)
qed

lemma derive_title_hyphen:
  assumes "ext = ''.md'' \<or> ext = ''.mdx''" and "is_lower c"
    and "\<not> echo_option (xs @ CHR ''-'' # c # ys)"
  shows "derive_title (xs @ CHR ''-'' # c # ys @ ext) =
         sed_spaces (sed_capitalize xs) @ to_upper c # sed_spaces (cap_rest ys)"
proof -
  let ?stem = "xs @ CHR ''-'' # c # ys"
  have "derive_title (?stem @ ext) = sed_spaces (sed_capitalize (echo_line ?stem))"
    using strip_ext_page [OF assms(1), of ?stem] by (simp only: derive_title_def)
  also have "echo_line ?stem = ?stem"
    using assms(3) by (simp add: echo_line_def)
  also have "sed_capitalize ?stem = sed_capitalize xs @ to_upper c # cap_rest ys"
    using assms(2) by (rule sed_capitalize_hyphen)
  finally show ?thesis
    using to_upper_not_hyphen [OF assms(2)]
    by (simp add: sed_spaces_append sed_spaces_Cons_other)
qed

section \<open>Properties of the loop body\<close>

lemma is_file_iff: "is_file fs p \<longleftrightarrow> (\<exists>c. map_of fs p = Some (File c))"
  by (auto simp: is_file_def split: option.splits node.splits)





lemma md_name_temp_file: "\<not> md_name temp_file"
  by (simp add: md_name_def temp_file_def suffix_def)

lemma basename_snoc: "basename (p @ [n]) = n"
  by (simp add: basename_def)

lemma process_file_dashed: "grep_q fs file \<Longrightarrow> process_file cwd fs file = fs"
  by (simp add: process_file_def)

lemma process_file_scratch_dir:
  assumes "map_of fs (cwd @ [temp_file]) = Some Dir" and "is_file fs file"
  shows "process_file cwd fs file = fs"
proof -
  from assms obtain c where c: "map_of fs file = Some (File c)"
    by (auto simp: is_file_iff)
  with assms(1) have ne: "cwd @ [temp_file] \<noteq> file" by auto
  show ?thesis
    using assms(1) c ne
    by (simp add: process_file_def redirect_write_def cat_append_def mv_def Let_def)
qed

lemma process_file_fresh:
  assumes "map_of fs file = Some (File c)" and "\<not> grep_dashes c"
    and "file \<noteq> cwd @ [temp_file]" and "map_of fs (cwd @ [temp_file]) \<noteq> Some Dir"
  shows "map_of (process_file cwd fs file) =
         (map_of fs)(file \<mapsto> File (frontmatter (derive_title (basename file)) @ c),
                     cwd @ [temp_file] := None)"
proof -
  let ?tmp = "cwd @ [temp_file]"
  let ?h = "frontmatter (derive_title (basename file))"
  let ?fs1 = "redirect_write fs ?tmp ?h"
  let ?fs2 = "cat_append ?fs1 file ?tmp"
  have m1: "map_of ?fs1 = (map_of fs)(?tmp \<mapsto> File ?h)"
    using assms(4) by (simp add: redirect_write_def update_conv')
  have m2: "map_of ?fs2 = (map_of fs)(?tmp \<mapsto> File (?h @ c))"
    using assms(1,3) by (simp add: cat_append_def m1 update_conv')
  have m3: "map_of (mv ?fs2 ?tmp file) = (map_of ?fs2)(file \<mapsto> File (?h @ c), ?tmp := None)"
    using assms(1,3) by (simp add: mv_def m2 update_conv' delete_conv')
  have "process_file cwd fs file = mv ?fs2 ?tmp file"
    using assms(1,2) by (simp add: process_file_def grep_q_def Let_def)
  then show ?thesis
    using assms(3) by (simp add: m3 m2 fun_upd_twist)
qed


lemma process_file_cases:
  assumes "is_file fs file" and "file \<noteq> cwd @ [temp_file]"
  shows "process_file cwd fs file = fs \<or>
         (\<exists>c. map_of fs file = Some (File c) \<and> \<not> grep_dashes c \<and>
              map_of fs (cwd @ [temp_file]) \<noteq> Some Dir \<and>
              map_of (process_file cwd fs file) =
                (map_of fs)(file \<mapsto> File (frontmatter (derive_title (basename file)) @ c),
                            cwd @ [temp_file] := None))"
proof -
  from assms(1) obtain c where c: "map_of fs file = Some (File c)"
    by (auto simp: is_file_iff)
  show ?thesis
  proof (cases "grep_dashes c \<or> map_of fs (cwd @ [temp_file]) = Some Dir")
    case True
    then show ?thesis
      using c assms(1) process_file_dashed [of fs "file" cwd] process_file_scratch_dir [of fs cwd "file"]
      by (auto simp: grep_q_def)
  next
    case False
    then show ?thesis
      using c assms(2) process_file_fresh [of fs "file" c cwd] by auto
  qed
qed


lemma step_is_file:
  assumes "is_file fs file" and "file \<noteq> cwd @ [temp_file]" and "q \<noteq> cwd @ [temp_file]"
  shows "is_file (process_file cwd fs file) q \<longleftrightarrow> is_file fs q"
  using process_file_cases [OF assms(1,2)] assms(1,3)
  by (auto simp: is_file_iff split: if_splits)

lemma step_dir:
  assumes "is_file fs file" and "file \<noteq> cwd @ [temp_file]"
  shows "map_of (process_file cwd fs file) q = Some Dir \<longleftrightarrow> map_of fs q = Some Dir"
  using process_file_cases [OF assms(1,2)] assms(1)
  by (auto simp: is_file_iff split: if_splits)



lemma listed_Cons:
  "listed cwd fs (p # ps) \<longleftrightarrow> is_file fs p \<and> p \<noteq> cwd @ [temp_file] \<and> listed cwd fs ps"
  by (simp add: listed_def)


lemma listed_step:
  assumes "listed cwd fs ps" and "is_file fs file" and "file \<noteq> cwd @ [temp_file]"
  shows "listed cwd (process_file cwd fs file) ps"
  using assms step_is_file [OF assms(2,3)]
  by (simp add: listed_def list_all_iff)


lemma fold_dir:
  assumes "listed cwd fs ps"
  shows "map_of (foldl (process_file cwd) fs ps) q = Some Dir \<longleftrightarrow> map_of fs q = Some Dir"
  using assms
proof (induction ps arbitrary: fs)
  case Nil
  then show ?case by simp
next
  case (Cons p ps)
  from Cons.prems have p: "is_file fs p" "p \<noteq> cwd @ [temp_file]" and ps: "listed cwd fs ps"
    by (simp_all add: listed_Cons)
  from Cons.IH [OF listed_step [OF ps p]] step_dir [OF p] show ?case by simp
qed





section \<open>Properties of a run\<close>

lemma find_files_iff:
  "p \<in> set (find_files fs cwd) \<longleftrightarrow> strict_prefix cwd p \<and> is_file fs p \<and> md_name (basename p)"
  by (auto simp: find_files_def is_file_iff dest: map_of_SomeD intro: rev_image_eqI)

lemma md_name_not_scratch: "md_name (basename p) \<Longrightarrow> p \<noteq> cwd @ [temp_file]"
  using md_name_temp_file by (auto simp: basename_snoc)

lemma listed_find_files: "listed cwd fs (find_files fs cwd)"
  by (simp add: listed_def list_all_iff find_files_iff md_name_not_scratch)

lemma workdir_cases: "workdir fs = vue_dir \<or> workdir fs = []"
  by (simp add: workdir_def cd_def)





lemma run_scratch_dir:
  "map_of (run fs) (workdir fs @ [temp_file]) = Some Dir \<longleftrightarrow>
   map_of fs (workdir fs @ [temp_file]) = Some Dir"
  unfolding run_def by (rule fold_dir [OF listed_find_files])






section \<open>Properties of the pipe\<close>





















section \<open>Evaluation\<close>

lemmas ex_defs = site_dirs_def page_def header_x_def ex_scenario_def rule_text_def ex_rule_def
  ex_scratch_def ex_no_dir_def ex_empty_def

lemmas script_defs = run_def workdir_def cd_def vue_dir_def find_files_def is_file_def md_name_def
  basename_def suffix_def process_file_def grep_q_def grep_dashes_def spec_has_header_def NL_def
  redirect_write_def cat_append_def mv_def temp_file_def frontmatter_def


lemma workdir_content: "map_of fs vue_dir = Some Dir \<Longrightarrow> workdir fs = vue_dir"
  by (simp add: workdir_def cd_def)



lemmas ex_defs2 = ex_defs ex_backslash_def ex_backslash_empty_def ex_newline_def ex_scratch_dir_def

lemmas script_defs2 = script_defs grep_dashes_def NUL_def BS_def script_def script_twice_def
  node_after_def read_lines_def find_output_def render_def resolve_def step_name_def
  trim_ifs_def blank_def parent_exists_def empty_dir_def

lemmas plain_defs = plain_names_def plain_name_def step_name_def BS_def NL_def

section \<open>The claims\<close>

text \<open>
  C1. The claim: a file named *.md or *.mdx under the content directory whose content
  does not begin with the header delimiter has, after one run, one delimiter line, the
  title line, the description line and the closing delimiter in front of its original
  content. The script does not do this for the page \<^verbatim>\<open>guide.md\<close> of \<open>ex_rule\<close>. The
  page has ordinary names on its path, lies in the content directory and has no
  header: its first line is \<^verbatim>\<open>intro\<close>. Its third line is a horizontal rule;
  \<^verbatim>\<open>grep -q "^---"\<close> reads the whole file, finds that line, and the script leaves the
  page as it is, although the comments of lines 6 and 14 speak of files without
  frontmatter.
\<close>

theorem rule_page_left_without_header:
  "plain_names ex_rule \<and> map_of ex_rule vue_dir = Some Dir \<and>
   strict_prefix vue_dir (page ''guide.md'') \<and> md_name (basename (page ''guide.md'')) \<and>
   map_of ex_rule (page ''guide.md'') = Some (File rule_text) \<and>
   \<not> spec_has_header rule_text \<and> take 3 rule_text \<noteq> ''---'' \<and>
   node_after (script ex_rule) (page ''guide.md'') = Some (File rule_text)"
  by (simp add: ex_defs2 script_defs2 plain_defs title_defs)

text \<open>
  C2. The claim: the header test looks at the first line alone, a first line of exactly
  three hyphens means that the file has a header, and every other file gets one. The
  loop body does not do this on \<open>ex_rule\<close>: neither page begins with a line of three
  hyphens alone, and the loop body leaves both as they are, the first because of the
  rule in its third line and the second because of the four hyphens at the start of
  its first line.
\<close>

theorem header_test_skips_rule_and_long_dashes:
  "map_of ex_rule (page ''guide.md'') = Some (File rule_text) \<and>
   \<not> spec_has_header rule_text \<and>
   process_file vue_dir ex_rule (page ''guide.md'') = ex_rule \<and>
   map_of ex_rule (page ''notes.md'') = Some (File ''---- draft'') \<and>
   \<not> spec_has_header ''---- draft'' \<and>
   process_file vue_dir ex_rule (page ''notes.md'') = ex_rule"
  by (simp add: ex_defs2 script_defs2 title_defs)

text \<open>
  C3. The claim: the title of a file name is the name without its extension, split at
  the separators, each part capitalised, the parts joined by single spaces; so
  \<^verbatim>\<open>quick-start.mdx\<close> gives \<^verbatim>\<open>Quick Start\<close> and \<^verbatim>\<open>introduction.md\<close> gives
  \<^verbatim>\<open>Introduction\<close>. The pipeline of the script gives \<^verbatim>\<open>Introduction\<close> for the second
  name, but \<^verbatim>\<open>QuickStart\<close> for the first: the capitalising substitution replaces the
  hyphen together with the letter, and the substitution that should turn hyphens into
  spaces finds none left.
\<close>

theorem derive_title_quick_start:
  "derive_title ''quick-start.mdx'' = ''QuickStart'' \<and>
   derive_title ''quick-start.mdx'' \<noteq> ''Quick Start'' \<and>
   derive_title ''introduction.md'' = ''Introduction''"
  by (simp add: title_defs)














text \<open>
  C9. In the title derivation only hyphens separate words. An underscore in the file
  name stays in the title as it is, and the character after it is left as it is, so
  it is not capitalised (first conjunct; \<^verbatim>\<open>my_file.md\<close> gives \<^verbatim>\<open>My_file\<close>, last
  conjunct). A name without a hyphen has at most its first letter changed (second
  conjunct). A hyphen followed by a lower-case letter is removed by the capitalising
  substitution, which leaves the upper-case letter alone in its place, so no space
  appears there in the title (third and fourth conjunct; the fourth excludes the names
  that \<^verbatim>\<open>echo\<close> would take for options).
\<close>

theorem title_hyphen_only_separator:
  assumes "ext = ''.md'' \<or> ext = ''.mdx''"
  shows "(c \<noteq> CHR ''-'' \<longrightarrow>
            derive_title (xs @ CHR ''_'' # c # ys @ ext) =
            sed_spaces (sed_capitalize xs) @ CHR ''_'' # c # sed_spaces (cap_rest ys)) \<and>
         (CHR ''-'' \<notin> set stem \<longrightarrow>
            derive_title (stem @ ext) = (case stem of [] \<Rightarrow> [] | a # as \<Rightarrow> to_upper a # as)) \<and>
         (is_lower c \<longrightarrow>
            sed_capitalize (xs @ CHR ''-'' # c # ys) =
            sed_capitalize xs @ to_upper c # cap_rest ys) \<and>
         (is_lower c \<and> \<not> echo_option (xs @ CHR ''-'' # c # ys) \<longrightarrow>
            derive_title (xs @ CHR ''-'' # c # ys @ ext) =
            sed_spaces (sed_capitalize xs) @ to_upper c # sed_spaces (cap_rest ys)) \<and>
         derive_title ''my_file.md'' = ''My_file''"
proof (intro conjI impI)
  assume "c \<noteq> CHR ''-''"
  with assms show "derive_title (xs @ CHR ''_'' # c # ys @ ext) =
      sed_spaces (sed_capitalize xs) @ CHR ''_'' # c # sed_spaces (cap_rest ys)"
    by (rule derive_title_underscore)
next
  assume "CHR ''-'' \<notin> set stem"
  with assms show "derive_title (stem @ ext) =
      (case stem of [] \<Rightarrow> [] | a # as \<Rightarrow> to_upper a # as)"
    by (rule derive_title_no_hyphen)
next
  assume "is_lower c"
  then show "sed_capitalize (xs @ CHR ''-'' # c # ys) =
      sed_capitalize xs @ to_upper c # cap_rest ys"
    by (rule sed_capitalize_hyphen)
next
  assume "is_lower c \<and> \<not> echo_option (xs @ CHR ''-'' # c # ys)"
  with assms show "derive_title (xs @ CHR ''-'' # c # ys @ ext) =
      sed_spaces (sed_capitalize xs) @ to_upper c # sed_spaces (cap_rest ys)"
    by (intro derive_title_hyphen) simp_all
next
  show "derive_title ''my_file.md'' = ''My_file''"
    by (simp add: title_defs)
qed

theorem title_hyphen_only_separator_witness:
  "derive_title ''my_file.md'' = ''My'' @ CHR ''_'' # CHR ''f'' # ''ile'' \<and>
   derive_title ''introduction.mdx'' = ''Introduction'' \<and>
   sed_capitalize ''keep-alive'' = ''KeepAlive'' \<and>
   derive_title ''keep-alive.mdx'' = ''KeepAlive''"
  using title_hyphen_only_separator [of "''.md''" "CHR ''f''" "''my''" "''ile''" "[]"]
    title_hyphen_only_separator [of "''.mdx''" "CHR ''a''" "''keep''" "''live''" "''introduction''"]
  by (simp add: title_defs)




end
